theory Spec2Isabelle
  imports Complex_Main "HOL-Library.Word"
begin

section \<open>JavaScript values and strings\<close>

text \<open>
  The two components, \<^verbatim>\<open>ChatInterface.tsx\<close> and \<^verbatim>\<open>EmailModal.tsx\<close>, are React function
  components. Their hook state is modelled as records, their event handlers as functions
  from state to state, and an \<^verbatim>\<open>async\<close> handler as two functions: the part that runs
  before the \<^verbatim>\<open>await\<close> and the part that runs once the awaited promise has settled,
  applied to whatever state the component has at that moment.

  A JavaScript string is a sequence of 16-bit code units, so it is a list of words of
  that size. The string literals of the source are all ASCII; \<open>utf16\<close> gives the code
  units of one. A parsed response body is \<^verbatim>\<open>any\<close> in the source, so it is a value of
  the type \<open>jsval\<close>; the payload of a JSON number plays no role in the code and is kept as
  an integer.
\<close>

type_synonym code_unit = "16 word"

type_synonym js_string = "code_unit list"

definition utf16 :: "string \<Rightarrow> js_string" where
  "utf16 cs = map of_char cs"

datatype jsval =
    JUndefined
  | JNull
  | JBool bool
  | JNum int
  | JStr js_string
  | JArr "jsval list"
  | JObj "(js_string \<times> jsval) list"

text \<open>
  What a \<^verbatim>\<open>catch\<close> block receives: an \<^verbatim>\<open>Error\<close> made by the source, with the argument
  of its constructor, or an error of the platform (a rejected fetch and a property read
  on \<^verbatim>\<open>null\<close> are TypeErrors, a body that is not JSON is a SyntaxError, the use of a
  global that does not exist is a ReferenceError).
\<close>

datatype js_error = Error jsval | TypeError | SyntaxError | ReferenceError

text \<open>
  Reading a property \<^verbatim>\<open>data.k\<close>. On \<^verbatim>\<open>null\<close> and \<^verbatim>\<open>undefined\<close> it throws a
  TypeError; on an object it gives the property, or \<^verbatim>\<open>undefined\<close> when there is none
  (of a key written twice in a JSON text the last one counts); on any other value it
  gives \<^verbatim>\<open>undefined\<close> for the keys the source reads (\<^verbatim>\<open>response\<close>, \<^verbatim>\<open>success\<close>,
  \<^verbatim>\<open>error\<close>), which no prototype defines.
\<close>

fun get_prop :: "js_string \<Rightarrow> jsval \<Rightarrow> js_error + jsval" where
  "get_prop k JUndefined = Inl TypeError"
| "get_prop k JNull = Inl TypeError"
| "get_prop k (JObj kvs) =
     (case map_of (rev kvs) k of None \<Rightarrow> Inr JUndefined | Some v \<Rightarrow> Inr v)"
| "get_prop k v = Inr JUndefined"

text \<open>The truth value of a JavaScript value in a condition.\<close>

fun truthy :: "jsval \<Rightarrow> bool" where
  "truthy JUndefined = False"
| "truthy JNull = False"
| "truthy (JBool b) = b"
| "truthy (JNum n) = (n \<noteq> 0)"
| "truthy (JStr s) = (s \<noteq> [])"
| "truthy (JArr vs) = True"
| "truthy (JObj kvs) = True"

text \<open>
  \<^verbatim>\<open>String.prototype.trim\<close>: white space and line terminators are removed from both
  ends. These are TAB, LF, VT, FF, CR, SPACE, NO-BREAK SPACE, U+1680, U+2000 to U+200A,
  the line and paragraph separators U+2028 and U+2029, U+202F, U+205F, U+3000 and the
  byte order mark U+FEFF: every one a single code unit.
\<close>

definition is_whitespace :: "code_unit \<Rightarrow> bool" where
  "is_whitespace c =
     (c \<in> {0x0009, 0x000A, 0x000B, 0x000C, 0x000D, 0x0020, 0x00A0, 0x1680,
            0x2028, 0x2029, 0x202F, 0x205F, 0x3000, 0xFEFF} \<or>
      (0x2000 \<le> c \<and> c \<le> 0x200A))"

definition trim :: "js_string \<Rightarrow> js_string" where
  "trim s = rev (dropWhile is_whitespace (rev (dropWhile is_whitespace s)))"

text \<open>
  \<^verbatim>\<open>String.prototype.toLowerCase\<close>, which the source uses for one thing, to look for
  \<^verbatim>\<open>female\<close> in the name of a voice. It is given on the capitals below 256, A to Z and
  U+00C0 to U+00DE without the multiplication sign, and keeps every other code unit.
  Beyond 256 only U+0130 and U+212A have an ASCII letter in their lower case, \<^verbatim>\<open>i\<close> and
  \<^verbatim>\<open>k\<close>, and neither is a letter of \<^verbatim>\<open>female\<close>, so the search has the same outcome.
\<close>

definition toLowerCase :: "js_string \<Rightarrow> js_string" where
  "toLowerCase s =
     map (\<lambda>c. if (0x41 \<le> c \<and> c \<le> 0x5A) \<or> (0xC0 \<le> c \<and> c \<le> 0xDE \<and> c \<noteq> 0xD7)
              then c + 0x20 else c) s"

definition startsWith :: "js_string \<Rightarrow> js_string \<Rightarrow> bool" where
  "startsWith s p = (take (length p) s = p)"

fun includes_str :: "js_string \<Rightarrow> js_string \<Rightarrow> bool" where
  "includes_str [] p = (p = [])"
| "includes_str (c # cs) p = (startsWith (c # cs) p \<or> includes_str cs p)"

section \<open>The platform: fetch and speech synthesis\<close>

text \<open>
  A call of \<^verbatim>\<open>fetch\<close>: the address, the method, the headers, and the object that
  \<^verbatim>\<open>JSON.stringify\<close> turns into the body.
\<close>

record 'b fetch_request =
  url :: js_string
  http_method :: js_string
  headers :: "(js_string \<times> js_string) list"
  json_body :: 'b

text \<open>
  What \<^verbatim>\<open>await fetch(...)\<close> followed by \<^verbatim>\<open>await response.json()\<close> can observe: the
  fetch promise rejects, or it resolves to a response with a status and a body that
  \<^verbatim>\<open>json()\<close> either parses or rejects. \<^verbatim>\<open>response.ok\<close> is true for the statuses 200
  to 299.
\<close>

datatype response_body = Malformed | Json jsval

datatype fetch_outcome = Rejected | Response nat response_body

definition ok :: "nat \<Rightarrow> bool" where
  "ok status = (200 \<le> status \<and> status \<le> 299)"

record voice =
  lang :: js_string
  name :: js_string

record utterance =
  utterance_text :: js_string
  voice :: "voice option"
  rate :: rat
  pitch :: rat
  volume :: rat

text \<open>
  Modelled from the spec: the platform speech engine (\<^verbatim>\<open>window.speechSynthesis\<close>) is not
  part of the repository. It is taken as the spec describes the capability: it holds the
  voices and a queue of utterances of which the first is the one being played once it has
  started; \<^verbatim>\<open>cancel\<close> empties the queue and ends the playing utterance at once without
  reporting an end, \<^verbatim>\<open>speak\<close> appends an utterance, \<^verbatim>\<open>pause\<close> and \<^verbatim>\<open>resume\<close> set and
  clear the paused flag, and start and end of an utterance are reported through the
  callbacks of that utterance.
\<close>

record speech_engine =
  voices :: "voice list"
  queue :: "utterance list"
  speaking :: bool
  paused :: bool

definition getVoices :: "speech_engine \<Rightarrow> voice list" where
  "getVoices e = voices e"

definition cancel :: "speech_engine \<Rightarrow> speech_engine" where
  "cancel e = e\<lparr>queue := [], speaking := False\<rparr>"

definition speak :: "utterance \<Rightarrow> speech_engine \<Rightarrow> speech_engine" where
  "speak u e = e\<lparr>queue := queue e @ [u]\<rparr>"

definition pause :: "speech_engine \<Rightarrow> speech_engine" where
  "pause e = e\<lparr>paused := True\<rparr>"

definition resume :: "speech_engine \<Rightarrow> speech_engine" where
  "resume e = e\<lparr>paused := False\<rparr>"

section \<open>ChatInterface\<close>

datatype role = User | Assistant

record message =
  role :: role
  content :: jsval

text \<open>
  The state a \<^verbatim>\<open>ChatInterface\<close> works on: its six \<^verbatim>\<open>useState\<close> cells, the prop
  \<^verbatim>\<open>currentChat\<close>, the cell of the parent that the prop \<^verbatim>\<open>setLastBotMessage\<close> writes,
  and the speech engine of the window (\<open>None\<close> when \<^verbatim>\<open>'speechSynthesis' in window\<close> is
  false).
\<close>

record chat_state =
  currentChat :: "js_string option"
  messages :: "message list"
  input :: js_string
  isRecording :: bool
  isLoading :: bool
  error :: "js_string option"
  isSpeaking :: bool
  lastBotMessage :: jsval
  speechSynthesis :: "speech_engine option"

text \<open>
  The state after the first render: the initial values of the \<^verbatim>\<open>useState\<close> calls, with
  the chat, the parent's cell and the engine as they are found.
\<close>

definition ChatInterface :: "js_string option \<Rightarrow> jsval \<Rightarrow> speech_engine option \<Rightarrow> chat_state" where
  "ChatInterface chat lbm engine =
     \<lparr>currentChat = chat, messages = [], input = [], isRecording = False,
      isLoading = False, error = None, isSpeaking = False, lastBotMessage = lbm,
      speechSynthesis = engine\<rparr>"

text \<open>
  The effect that runs once after the first render. \<^verbatim>\<open>loadVoices\<close> calls
  \<^verbatim>\<open>speechSynthesis.getVoices()\<close> and drops the result, and is then registered as
  \<^verbatim>\<open>window.speechSynthesis.onvoiceschanged\<close>. Neither use is guarded: where the window
  has no speech synthesis the effect throws, and the component does not stay mounted.
\<close>

definition loadVoices :: "chat_state \<Rightarrow> js_error + chat_state" where
  "loadVoices s = (case speechSynthesis s of None \<Rightarrow> Inl ReferenceError | Some e \<Rightarrow> Inr s)"

definition mount_effect :: "chat_state \<Rightarrow> js_error + chat_state" where
  "mount_effect s = loadVoices s"

text \<open>The input's \<^verbatim>\<open>onChange\<close>: \<^verbatim>\<open>setInput(e.target.value)\<close>.\<close>

definition setInput :: "js_string \<Rightarrow> chat_state \<Rightarrow> chat_state" where
  "setInput v s = s\<lparr>input := v\<rparr>"

text \<open>
  The effect \<^verbatim>\<open>useEffect(() => { setMessages([]) }, [currentChat])\<close>, and the component
  being rendered with a new \<^verbatim>\<open>currentChat\<close>: the effect runs when the value differs
  from the one of the previous render. The effect is all the component does then; the
  parent, which sets the prop, is not among the sources.
\<close>

definition currentChat_effect :: "chat_state \<Rightarrow> chat_state" where
  "currentChat_effect s = s\<lparr>messages := []\<rparr>"

definition set_currentChat :: "js_string option \<Rightarrow> chat_state \<Rightarrow> chat_state" where
  "set_currentChat chat s =
     (if chat = currentChat s then s else currentChat_effect (s\<lparr>currentChat := chat\<rparr>))"

subsection \<open>handleSubmit\<close>

text \<open>
  The object given to \<^verbatim>\<open>JSON.stringify\<close> as the body of the request to \<^verbatim>\<open>/ask_bot\<close>.
  The field \<open>wrapper_messages\<close> is the key \<^verbatim>\<open>messages\<close> of a wrapper object and
  \<open>text'\<close> the key \<^verbatim>\<open>text\<close>.
\<close>

record turn =
  sender :: role
  text' :: jsval

record wrapper =
  wrapper_messages :: "turn list"

record ask_bot_request =
  conversationsNew :: "wrapper list"
  question :: js_string

text \<open>
  The handler up to its \<^verbatim>\<open>await fetch\<close>: the new state and the requests that are sent
  (none or one). It reads \<^verbatim>\<open>messages\<close> and \<^verbatim>\<open>input\<close> of the render it was created in.
\<close>

definition handleSubmit_before_await ::
    "chat_state \<Rightarrow> chat_state \<times> ask_bot_request fetch_request list" where
  "handleSubmit_before_await s =
     (if trim (input s) = [] then (s, [])
      else
        (s\<lparr>messages := messages s @ [\<lparr>role = User, content = JStr (input s)\<rparr>],
           input := [], isLoading := True, error := None\<rparr>,
         [\<lparr>url = utf16 ''http://localhost:8080/ask_bot'', http_method = utf16 ''POST'',
           headers = [(utf16 ''Content-Type'', utf16 ''application/json'')],
           json_body =
             \<lparr>conversationsNew =
                map (\<lambda>msg. \<lparr>wrapper_messages = [\<lparr>sender = role msg, text' = content msg\<rparr>]\<rparr>)
                  (messages s),
              question = input s\<rparr>\<rparr>]))"

text \<open>
  The \<^verbatim>\<open>try\<close> block after the fetch has settled: the value of \<^verbatim>\<open>data.response\<close>, or the
  error that takes control to the \<^verbatim>\<open>catch\<close> block.
\<close>

definition ask_bot_response :: "fetch_outcome \<Rightarrow> js_error + jsval" where
  "ask_bot_response out =
     (case out of
        Rejected \<Rightarrow> Inl TypeError
      | Response status body \<Rightarrow>
          if \<not> ok status then Inl (Error (JStr (utf16 ''Network response was not ok'')))
          else (case body of
                  Malformed \<Rightarrow> Inl SyntaxError
                | Json data \<Rightarrow> get_prop (utf16 ''response'') data))"

text \<open>
  The rest of the handler. \<^verbatim>\<open>setMessages\<close> is given a function of the previous
  messages, so the reply is appended to the log the component has when the fetch settles.
  What the \<^verbatim>\<open>catch\<close> block writes to the console is left out.
\<close>

definition handleSubmit_after_await :: "fetch_outcome \<Rightarrow> chat_state \<Rightarrow> chat_state" where
  "handleSubmit_after_await out s =
     (case ask_bot_response out of
        Inr reply \<Rightarrow>
          s\<lparr>messages := messages s @ [\<lparr>role = Assistant, content = reply\<rparr>],
            lastBotMessage := reply, isLoading := False\<rparr>
      | Inl e \<Rightarrow>
          s\<lparr>error := Some (utf16 ''An error occurred while fetching the response. Please try again.''),
            isLoading := False\<rparr>)"

text \<open>A submit during which nothing else happens to the component.\<close>

definition handleSubmit :: "fetch_outcome \<Rightarrow> chat_state \<Rightarrow> chat_state" where
  "handleSubmit out s =
     (case handleSubmit_before_await s of
        (s', []) \<Rightarrow> s'
      | (s', req # reqs) \<Rightarrow> handleSubmit_after_await out s')"

subsection \<open>Recording stub\<close>

definition toggleRecording :: "chat_state \<Rightarrow> chat_state" where
  "toggleRecording s = s\<lparr>isRecording := \<not> isRecording s\<rparr>"

subsection \<open>speakMessage and stopSpeaking\<close>

text \<open>
  The voice \<^verbatim>\<open>speakMessage\<close> puts on the utterance: the first \<^verbatim>\<open>en-IN\<close> voice whose
  lower-cased name includes \<^verbatim>\<open>female\<close>, else the first such voice whose language
  starts with \<^verbatim>\<open>en\<close>, else none (the utterance keeps the default voice).
\<close>

definition select_voice :: "voice list \<Rightarrow> voice option" where
  "select_voice vs =
     (case find (\<lambda>v. lang v = utf16 ''en-IN'' \<and>
                      includes_str (toLowerCase (name v)) (utf16 ''female'')) vs of
        Some preferredVoice \<Rightarrow> Some preferredVoice
      | None \<Rightarrow>
          find (\<lambda>v. startsWith (lang v) (utf16 ''en'') \<and>
                    includes_str (toLowerCase (name v)) (utf16 ''female'')) vs)"

text \<open>
  \<^verbatim>\<open>speakMessage\<close>, with its parameter a string as declared: without the capability it
  only writes to the console; with it, whatever is queued or playing is cancelled first
  and the new utterance is handed to the engine.
\<close>

definition speakMessage :: "js_string \<Rightarrow> chat_state \<Rightarrow> chat_state" where
  "speakMessage message s =
     (case speechSynthesis s of
        None \<Rightarrow> s
      | Some e \<Rightarrow>
          (let e' = cancel e;
               u = \<lparr>utterance_text = message, voice = select_voice (getVoices e'),
                    rate = 0.9, pitch = 1.1, volume = 0.95\<rparr>
           in s\<lparr>speechSynthesis := Some (speak u e')\<rparr>))"

definition stopSpeaking :: "chat_state \<Rightarrow> chat_state" where
  "stopSpeaking s =
     (case speechSynthesis s of
        None \<Rightarrow> s
      | Some e \<Rightarrow> s\<lparr>speechSynthesis := Some (cancel e), isSpeaking := False\<rparr>)"

text \<open>
  The callbacks \<^verbatim>\<open>speakMessage\<close> puts on every utterance: \<^verbatim>\<open>onstart\<close>, \<^verbatim>\<open>onend\<close>,
  \<^verbatim>\<open>onboundary\<close> (with the name of the event), and the function the latter hands to
  \<^verbatim>\<open>setTimeout\<close>.
\<close>

definition utterance_onstart :: "chat_state \<Rightarrow> chat_state" where
  "utterance_onstart s = s\<lparr>isSpeaking := True\<rparr>"

definition utterance_onend :: "chat_state \<Rightarrow> chat_state" where
  "utterance_onend s = s\<lparr>isSpeaking := False\<rparr>"

definition utterance_onboundary :: "js_string \<Rightarrow> chat_state \<Rightarrow> chat_state" where
  "utterance_onboundary event_name s =
     (if event_name = utf16 ''word''
      then s\<lparr>speechSynthesis := map_option pause (speechSynthesis s)\<rparr>
      else s)"

definition onboundary_timeout :: "chat_state \<Rightarrow> chat_state" where
  "onboundary_timeout s = s\<lparr>speechSynthesis := map_option resume (speechSynthesis s)\<rparr>"

text \<open>
  Modelled from the spec: what the platform does on its own. It starts the first utterance
  of the queue and calls its \<^verbatim>\<open>onstart\<close>; it finishes the utterance it plays, takes it
  off the queue and calls its \<^verbatim>\<open>onend\<close>; it reports a boundary of the utterance it
  plays; its list of voices changes.
\<close>

definition utterance_starts :: "chat_state \<Rightarrow> chat_state" where
  "utterance_starts s =
     utterance_onstart (s\<lparr>speechSynthesis := map_option (\<lambda>e. e\<lparr>speaking := True\<rparr>) (speechSynthesis s)\<rparr>)"

definition utterance_completes :: "chat_state \<Rightarrow> chat_state" where
  "utterance_completes s =
     utterance_onend
       (s\<lparr>speechSynthesis :=
            map_option (\<lambda>e. e\<lparr>queue := tl (queue e), speaking := False\<rparr>) (speechSynthesis s)\<rparr>)"

definition voiceschanged :: "voice list \<Rightarrow> chat_state \<Rightarrow> chat_state" where
  "voiceschanged vs s = s\<lparr>speechSynthesis := map_option (\<lambda>e. e\<lparr>voices := vs\<rparr>) (speechSynthesis s)\<rparr>"

text \<open>The utterances the engine holds, and whether it is playing one.\<close>

definition active_utterances :: "chat_state \<Rightarrow> utterance list" where
  "active_utterances s = (case speechSynthesis s of None \<Rightarrow> [] | Some e \<Rightarrow> queue e)"

definition playing :: "chat_state \<Rightarrow> bool" where
  "playing s = (case speechSynthesis s of None \<Rightarrow> False | Some e \<Rightarrow> queue e \<noteq> [] \<and> speaking e)"

definition idle_engine :: "voice list \<Rightarrow> speech_engine" where
  "idle_engine vs = \<lparr>voices = vs, queue = [], speaking = False, paused = False\<rparr>"

text \<open>
  The states a mounted component can be in: it starts with the engine, if there is one,
  idle, and every event of the component or of the platform takes it from one state to the
  next. A settled fetch is allowed at any moment, which covers every order of events. A
  start without an engine is admitted although \<open>mount_effect\<close> fails there: it adds
  states, and what holds of all of these holds of the states of a component that stays
  mounted.
\<close>

inductive reachable :: "chat_state \<Rightarrow> bool" where
  mount: "reachable (ChatInterface chat lbm (map_option idle_engine engine_voices))"
| change_input: "reachable s \<Longrightarrow> reachable (setInput v s)"
| change_chat: "reachable s \<Longrightarrow> reachable (set_currentChat chat s)"
| submit: "reachable s \<Longrightarrow> reachable (fst (handleSubmit_before_await s))"
| settle: "reachable s \<Longrightarrow> reachable (handleSubmit_after_await out s)"
| recording: "reachable s \<Longrightarrow> reachable (toggleRecording s)"
| speaking_requested: "reachable s \<Longrightarrow> reachable (speakMessage message s)"
| stop_requested: "reachable s \<Longrightarrow> reachable (stopSpeaking s)"
| starts: "reachable s \<Longrightarrow> active_utterances s \<noteq> [] \<Longrightarrow> \<not> playing s \<Longrightarrow> reachable (utterance_starts s)"
| completes: "reachable s \<Longrightarrow> playing s \<Longrightarrow> reachable (utterance_completes s)"
| boundary: "reachable s \<Longrightarrow> playing s \<Longrightarrow> reachable (utterance_onboundary event_name s)"
| timer: "reachable s \<Longrightarrow> reachable (onboundary_timeout s)"
| voices_changed: "reachable s \<Longrightarrow> reachable (voiceschanged vs s)"

section \<open>EmailModal\<close>

text \<open>
  The component's two \<^verbatim>\<open>useState\<close> cells and its prop \<^verbatim>\<open>isOpen\<close>. The prop
  \<^verbatim>\<open>lastBotMessage\<close>, a string by its declaration, is an argument of the handler.
\<close>

record modal_state =
  isOpen :: bool
  email :: js_string
  sending :: bool

definition EmailModal :: "bool \<Rightarrow> modal_state" where
  "EmailModal b = \<lparr>isOpen = b, email = [], sending = False\<rparr>"

text \<open>The input's \<^verbatim>\<open>onChange\<close>: \<^verbatim>\<open>setEmail(e.target.value)\<close>.\<close>

definition setEmail :: "js_string \<Rightarrow> modal_state \<Rightarrow> modal_state" where
  "setEmail v m = m\<lparr>email := v\<rparr>"

text \<open>
  Modelled from the spec: the parent component, which owns \<^verbatim>\<open>isOpen\<close> and passes
  \<^verbatim>\<open>onClose\<close>, is not among the sources, and the component itself writes the address
  only in the input's \<^verbatim>\<open>onChange\<close>. Opening and closing are taken in the words of the
  spec: a pure visibility toggle, where closing discards any partially entered address.
\<close>

definition open_modal :: "modal_state \<Rightarrow> modal_state" where
  "open_modal m = m\<lparr>isOpen := True\<rparr>"

definition onClose :: "modal_state \<Rightarrow> modal_state" where
  "onClose m = m\<lparr>isOpen := False, email := []\<rparr>"

text \<open>
  What the component renders of the address: nothing when it is closed
  (\<^verbatim>\<open>if (!isOpen) return null\<close>), else the input with \<^verbatim>\<open>value={email}\<close>.
\<close>

definition email_input :: "modal_state \<Rightarrow> js_string option" where
  "email_input m = (if \<not> isOpen m then None else Some (email m))"

record send_email_request =
  to :: js_string
  subject :: js_string
  body :: js_string

text \<open>
  The handler up to its \<^verbatim>\<open>await fetch\<close>: the new state and the requests that are sent.
\<close>

definition EmailModal_handleSubmit_before_await ::
    "js_string \<Rightarrow> modal_state \<Rightarrow> modal_state \<times> send_email_request fetch_request list" where
  "EmailModal_handleSubmit_before_await lastBotMessage_prop m =
     (m\<lparr>sending := True\<rparr>,
      [\<lparr>url = utf16 ''http://localhost:8080/send_email'', http_method = utf16 ''POST'',
        headers = [(utf16 ''Content-Type'', utf16 ''application/json'')],
        json_body =
          \<lparr>to = email m, subject = utf16 ''Police Report Summary'', body = lastBotMessage_prop\<rparr>\<rparr>])"

text \<open>The \<^verbatim>\<open>try\<close> block after the fetch has settled: it ends normally or with an error.\<close>

definition send_email_response :: "fetch_outcome \<Rightarrow> js_error + unit" where
  "send_email_response out =
     (case out of
        Rejected \<Rightarrow> Inl TypeError
      | Response status payload \<Rightarrow>
          if \<not> ok status then Inl (Error (JStr (utf16 ''Failed to send email'')))
          else (case payload of
                  Malformed \<Rightarrow> Inl SyntaxError
                | Json emailData \<Rightarrow>
                    (case get_prop (utf16 ''success'') emailData of
                       Inl e \<Rightarrow> Inl e
                     | Inr success \<Rightarrow>
                         if truthy success then Inr ()
                         else (case get_prop (utf16 ''error'') emailData of
                                 Inl e \<Rightarrow> Inl e
                               | Inr err \<Rightarrow>
                                   Inl (Error (if truthy err then err
                                               else JStr (utf16 ''Failed to send email'')))))))"

text \<open>The rest of the handler: the new state and the text of the alert it shows.\<close>

definition EmailModal_handleSubmit_after_await ::
    "fetch_outcome \<Rightarrow> modal_state \<Rightarrow> modal_state \<times> js_string" where
  "EmailModal_handleSubmit_after_await out m =
     (case send_email_response out of
        Inr u \<Rightarrow> ((onClose m)\<lparr>sending := False\<rparr>, utf16 ''Email sent successfully!'')
      | Inl e \<Rightarrow> (m\<lparr>sending := False\<rparr>, utf16 ''Failed to send email. Please try again.''))"

section \<open>The speaking flag and the engine\<close>

text \<open>
  What holds of the speaking flag and the engine in every state of a mounted component:
  without an engine the flag is never set, and with one the queue holds at most one
  utterance and the flag is set whenever that utterance is being played.
\<close>

definition speech_inv :: "chat_state \<Rightarrow> bool" where
  "speech_inv s =
     (case speechSynthesis s of
        None \<Rightarrow> \<not> isSpeaking s
      | Some e \<Rightarrow> length (queue e) \<le> 1 \<and> (\<not> (queue e \<noteq> [] \<and> speaking e) \<or> isSpeaking s))"

section \<open>Properties of handleSubmit\<close>

lemma failed_response:
  "out = Rejected \<or> (\<exists>status b. out = Response status b \<and> \<not> ok status) \<Longrightarrow>
   \<exists>e. ask_bot_response out = Inl e"
  by (auto simp: ask_bot_response_def)

text \<open>
  How much longer a submit makes the log, for every state and every outcome of the fetch:
  not at all when the text is empty after trimming, when also no request is sent; else by
  two when the \<^verbatim>\<open>try\<close> block runs to its end and by one when it throws.
\<close>

lemma handleSubmit_length:
  "length (messages (handleSubmit out s)) =
     length (messages s) +
       (if trim (input s) = [] then 0
        else (case ask_bot_response out of Inl e \<Rightarrow> 1 | Inr reply \<Rightarrow> 2))"
  by (simp add: handleSubmit_def handleSubmit_before_await_def handleSubmit_after_await_def
      split: sum.split)

lemma handleSubmit_blank:
  "trim (input s) = [] \<Longrightarrow> handleSubmit_before_await s = (s, []) \<and> handleSubmit out s = s"
  by (simp add: handleSubmit_def handleSubmit_before_await_def)

text \<open>
  A text of white space alone, here a space, an ideographic space, an em space, a byte
  order mark and a line feed, is not submitted: no request, no change of the state.
\<close>

lemma handleSubmit_blank_example:
  "handleSubmit_before_await
     ((ChatInterface (Some (utf16 ''chat-1'')) (JStr []) (Some (idle_engine [])))
        \<lparr>input := [0x20, 0x3000, 0x2003, 0xFEFF, 0x0A]\<rparr>) =
   ((ChatInterface (Some (utf16 ''chat-1'')) (JStr []) (Some (idle_engine [])))
        \<lparr>input := [0x20, 0x3000, 0x2003, 0xFEFF, 0x0A]\<rparr>, [])"
  by (simp add: handleSubmit_before_await_def trim_def is_whitespace_def)

text \<open>
  Claim C5, at an input where the code departs from it. The log holds one exchange, the
  user submits \<^verbatim>\<open>what now?\<close> and the backend answers with status 200 and the body
  \<^verbatim>\<open>{}\<close>, which has no \<^verbatim>\<open>response\<close> field: a failed submit by the spec. One request
  was sent, and the log is longer by two, not by one: the user's message and an assistant
  message without content.
\<close>

theorem handleSubmit_missing_field_length:
  "length (snd (handleSubmit_before_await
      ((ChatInterface (Some (utf16 ''chat-1'')) (JStr (utf16 ''hi there'')) (Some (idle_engine [])))
         \<lparr>messages := [\<lparr>role = User, content = JStr (utf16 ''hello'')\<rparr>,
                       \<lparr>role = Assistant, content = JStr (utf16 ''hi there'')\<rparr>],
          input := utf16 ''what now?''\<rparr>))) = 1 \<and>
   length (messages (handleSubmit (Response 200 (Json (JObj [])))
      ((ChatInterface (Some (utf16 ''chat-1'')) (JStr (utf16 ''hi there'')) (Some (idle_engine [])))
         \<lparr>messages := [\<lparr>role = User, content = JStr (utf16 ''hello'')\<rparr>,
                       \<lparr>role = Assistant, content = JStr (utf16 ''hi there'')\<rparr>],
          input := utf16 ''what now?''\<rparr>))) =
     length (messages
      ((ChatInterface (Some (utf16 ''chat-1'')) (JStr (utf16 ''hi there'')) (Some (idle_engine [])))
         \<lparr>messages := [\<lparr>role = User, content = JStr (utf16 ''hello'')\<rparr>,
                       \<lparr>role = Assistant, content = JStr (utf16 ''hi there'')\<rparr>],
          input := utf16 ''what now?''\<rparr>)) + 2 \<and>
   messages (handleSubmit (Response 200 (Json (JObj [])))
      ((ChatInterface (Some (utf16 ''chat-1'')) (JStr (utf16 ''hi there'')) (Some (idle_engine [])))
         \<lparr>messages := [\<lparr>role = User, content = JStr (utf16 ''hello'')\<rparr>,
                       \<lparr>role = Assistant, content = JStr (utf16 ''hi there'')\<rparr>],
          input := utf16 ''what now?''\<rparr>)) =
     [\<lparr>role = User, content = JStr (utf16 ''hello'')\<rparr>,
      \<lparr>role = Assistant, content = JStr (utf16 ''hi there'')\<rparr>,
      \<lparr>role = User, content = JStr (utf16 ''what now?'')\<rparr>,
      \<lparr>role = Assistant, content = JUndefined\<rparr>]"
  by (simp add: handleSubmit_def handleSubmit_after_await_def ask_bot_response_def ok_def
      handleSubmit_before_await_def ChatInterface_def trim_def is_whitespace_def utf16_def)

text \<open>
  Claim C6. When a submit fails, by a rejected fetch or a status that is not 2xx, the
  error text is set to the user-facing message, the loading flag is cleared, no assistant
  message is appended and the last assistant message is not touched, in whatever state the
  failure arrives; over the whole submit the user message appended before the request
  stays in the log.
\<close>

theorem handleSubmit_failure:
  assumes "out = Rejected \<or> (\<exists>status b. out = Response status b \<and> \<not> ok status)"
  shows "error (handleSubmit_after_await out s') =
           Some (utf16 ''An error occurred while fetching the response. Please try again.'') \<and>
         isLoading (handleSubmit_after_await out s') = False \<and>
         messages (handleSubmit_after_await out s') = messages s' \<and>
         lastBotMessage (handleSubmit_after_await out s') = lastBotMessage s' \<and>
         (trim (input s) \<noteq> [] \<longrightarrow>
            error (handleSubmit out s) =
              Some (utf16 ''An error occurred while fetching the response. Please try again.'') \<and>
            isLoading (handleSubmit out s) = False \<and>
            messages (handleSubmit out s) =
              messages s @ [\<lparr>role = User, content = JStr (input s)\<rparr>] \<and>
            lastBotMessage (handleSubmit out s) = lastBotMessage s)"
proof -
  from assms obtain e where e: "ask_bot_response out = Inl e"
    using failed_response by blast
  then show ?thesis
    by (simp add: handleSubmit_def handleSubmit_before_await_def handleSubmit_after_await_def)
qed

theorem handleSubmit_failure_witness:
  "error (handleSubmit (Response 503 (Json (JObj [(utf16 ''response'', JStr (utf16 ''late reply''))])))
      ((ChatInterface (Some (utf16 ''chat-1'')) (JStr (utf16 ''hi there'')) (Some (idle_engine [])))
         \<lparr>messages := [\<lparr>role = User, content = JStr (utf16 ''hello'')\<rparr>,
                       \<lparr>role = Assistant, content = JStr (utf16 ''hi there'')\<rparr>],
          input := utf16 ''what now?''\<rparr>)) =
     Some (utf16 ''An error occurred while fetching the response. Please try again.'') \<and>
   messages (handleSubmit (Response 503 (Json (JObj [(utf16 ''response'', JStr (utf16 ''late reply''))])))
      ((ChatInterface (Some (utf16 ''chat-1'')) (JStr (utf16 ''hi there'')) (Some (idle_engine [])))
         \<lparr>messages := [\<lparr>role = User, content = JStr (utf16 ''hello'')\<rparr>,
                       \<lparr>role = Assistant, content = JStr (utf16 ''hi there'')\<rparr>],
          input := utf16 ''what now?''\<rparr>)) =
     [\<lparr>role = User, content = JStr (utf16 ''hello'')\<rparr>,
      \<lparr>role = Assistant, content = JStr (utf16 ''hi there'')\<rparr>,
      \<lparr>role = User, content = JStr (utf16 ''what now?'')\<rparr>] \<and>
   isLoading (handleSubmit (Response 503 (Json (JObj [(utf16 ''response'', JStr (utf16 ''late reply''))])))
      ((ChatInterface (Some (utf16 ''chat-1'')) (JStr (utf16 ''hi there'')) (Some (idle_engine [])))
         \<lparr>messages := [\<lparr>role = User, content = JStr (utf16 ''hello'')\<rparr>,
                       \<lparr>role = Assistant, content = JStr (utf16 ''hi there'')\<rparr>],
          input := utf16 ''what now?''\<rparr>)) = False \<and>
   lastBotMessage (handleSubmit (Response 503 (Json (JObj [(utf16 ''response'', JStr (utf16 ''late reply''))])))
      ((ChatInterface (Some (utf16 ''chat-1'')) (JStr (utf16 ''hi there'')) (Some (idle_engine [])))
         \<lparr>messages := [\<lparr>role = User, content = JStr (utf16 ''hello'')\<rparr>,
                       \<lparr>role = Assistant, content = JStr (utf16 ''hi there'')\<rparr>],
          input := utf16 ''what now?''\<rparr>)) = JStr (utf16 ''hi there'')"
  using handleSubmit_failure [of "(Response 503 (Json (JObj [(utf16 ''response'', JStr (utf16 ''late reply''))])))"
      "((ChatInterface (Some (utf16 ''chat-1'')) (JStr (utf16 ''hi there'')) (Some (idle_engine [])))
         \<lparr>messages := [\<lparr>role = User, content = JStr (utf16 ''hello'')\<rparr>,
                       \<lparr>role = Assistant, content = JStr (utf16 ''hi there'')\<rparr>],
          input := utf16 ''what now?''\<rparr>)"
      "((ChatInterface (Some (utf16 ''chat-1'')) (JStr (utf16 ''hi there'')) (Some (idle_engine [])))
         \<lparr>messages := [\<lparr>role = User, content = JStr (utf16 ''hello'')\<rparr>,
                       \<lparr>role = Assistant, content = JStr (utf16 ''hi there'')\<rparr>],
          input := utf16 ''what now?''\<rparr>)"]
  by (simp add: trim_def is_whitespace_def ok_def ChatInterface_def utf16_def)

text \<open>
  Claim C7. A submit with text that is not empty after trimming sends one request, to
  \<^verbatim>\<open>/ask_bot\<close>, whose \<^verbatim>\<open>conversationsNew\<close> has one wrapper object per message of the
  log as it was before the submit, in order, each holding the one pair of sender and
  text of that message, and whose \<^verbatim>\<open>question\<close> is the text submitted. The user turn the
  submit appends to the log is not among the wrappers: the log after it is one longer.
\<close>

theorem handleSubmit_request:
  assumes "trim (input s) \<noteq> []"
  shows "snd (handleSubmit_before_await s) =
           [\<lparr>url = utf16 ''http://localhost:8080/ask_bot'', http_method = utf16 ''POST'',
             headers = [(utf16 ''Content-Type'', utf16 ''application/json'')],
             json_body =
               \<lparr>conversationsNew =
                  map (\<lambda>m. \<lparr>wrapper_messages = [\<lparr>sender = role m, text' = content m\<rparr>]\<rparr>) (messages s),
                question = input s\<rparr>\<rparr>] \<and>
         length (messages (fst (handleSubmit_before_await s))) = Suc (length (messages s))"
  using assms by (simp add: handleSubmit_before_await_def)

theorem handleSubmit_request_witness:
  "map json_body (snd (handleSubmit_before_await
      ((ChatInterface (Some (utf16 ''chat-1'')) (JStr (utf16 ''hi there'')) (Some (idle_engine [])))
         \<lparr>messages := [\<lparr>role = User, content = JStr (utf16 ''hello'')\<rparr>,
                       \<lparr>role = Assistant, content = JStr (utf16 ''hi there'')\<rparr>],
          input := utf16 ''what now?''\<rparr>))) =
     [\<lparr>conversationsNew =
         [\<lparr>wrapper_messages = [\<lparr>sender = User, text' = JStr (utf16 ''hello'')\<rparr>]\<rparr>,
          \<lparr>wrapper_messages = [\<lparr>sender = Assistant, text' = JStr (utf16 ''hi there'')\<rparr>]\<rparr>],
       question = utf16 ''what now?''\<rparr>]"
  using handleSubmit_request [of
      "((ChatInterface (Some (utf16 ''chat-1'')) (JStr (utf16 ''hi there'')) (Some (idle_engine [])))
         \<lparr>messages := [\<lparr>role = User, content = JStr (utf16 ''hello'')\<rparr>,
                       \<lparr>role = Assistant, content = JStr (utf16 ''hi there'')\<rparr>],
          input := utf16 ''what now?''\<rparr>)"]
  by (simp add: trim_def is_whitespace_def ChatInterface_def utf16_def)

text \<open>
  Claim C3, at an input where the code departs from it. The backend answers a submit of
  \<^verbatim>\<open>hello\<close> with status 200 and the body \<^verbatim>\<open>{}\<close>, which has no \<^verbatim>\<open>response\<close> field.
  The handler appends an assistant message whose content is \<^verbatim>\<open>undefined\<close>, overwrites
  the last assistant message with \<^verbatim>\<open>undefined\<close> and sets no error.
\<close>

theorem missing_response_field_appended:
  "messages (handleSubmit (Response 200 (Json (JObj [])))
      ((ChatInterface (Some (utf16 ''chat-1'')) (JStr (utf16 ''earlier reply'')) (Some (idle_engine [])))
         \<lparr>input := utf16 ''hello''\<rparr>)) =
     [\<lparr>role = User, content = JStr (utf16 ''hello'')\<rparr>, \<lparr>role = Assistant, content = JUndefined\<rparr>] \<and>
   lastBotMessage (handleSubmit (Response 200 (Json (JObj [])))
      ((ChatInterface (Some (utf16 ''chat-1'')) (JStr (utf16 ''earlier reply'')) (Some (idle_engine [])))
         \<lparr>input := utf16 ''hello''\<rparr>)) =
     JUndefined \<and>
   error (handleSubmit (Response 200 (Json (JObj [])))
      ((ChatInterface (Some (utf16 ''chat-1'')) (JStr (utf16 ''earlier reply'')) (Some (idle_engine [])))
         \<lparr>input := utf16 ''hello''\<rparr>)) = None"
  by (simp add: handleSubmit_def handleSubmit_after_await_def ask_bot_response_def ok_def
      handleSubmit_before_await_def ChatInterface_def trim_def is_whitespace_def utf16_def)

section \<open>Properties of the reset\<close>

text \<open>
  Claim C1 fails as stated. A submit is made in chat \<^verbatim>\<open>chat-1\<close>, the chat is then
  deselected, which empties the log, and the reply arrives after that: it is appended to
  the emptied log and recorded as the last assistant message.
\<close>

theorem late_reply_counterexample:
  "messages (handleSubmit_after_await (Response 200 (Json (JObj [(utf16 ''response'', JStr (utf16 ''late reply''))])))
      (set_currentChat None
         (fst (handleSubmit_before_await
            ((ChatInterface (Some (utf16 ''chat-1'')) (JStr []) (Some (idle_engine [])))
            \<lparr>input := utf16 ''hello''\<rparr>))))) =
     [\<lparr>role = Assistant, content = JStr (utf16 ''late reply'')\<rparr>] \<and>
   lastBotMessage (handleSubmit_after_await (Response 200 (Json (JObj [(utf16 ''response'', JStr (utf16 ''late reply''))])))
      (set_currentChat None
         (fst (handleSubmit_before_await
            ((ChatInterface (Some (utf16 ''chat-1'')) (JStr []) (Some (idle_engine [])))
            \<lparr>input := utf16 ''hello''\<rparr>))))) =
     JStr (utf16 ''late reply'')"
  by (simp add: handleSubmit_after_await_def ask_bot_response_def ok_def set_currentChat_def
      currentChat_effect_def handleSubmit_before_await_def ChatInterface_def trim_def
      is_whitespace_def utf16_def)

text \<open>
  Claim C1, amended. A reply is applied to the session the component has when it arrives:
  a 2xx reply with a \<^verbatim>\<open>response\<close> field is appended to the current log and recorded as
  the last assistant message. When the chat was changed between the submit and the reply,
  the log after the reply holds that reply alone.
\<close>

theorem late_reply_applied:
  assumes "trim (input s) \<noteq> []" and "chat \<noteq> currentChat s"
    and "ok status" and "map_of (rev kvs) (utf16 ''response'') = Some reply"
  shows "messages (handleSubmit_after_await (Response status (Json (JObj kvs)))
            (set_currentChat chat (fst (handleSubmit_before_await s)))) =
           [\<lparr>role = Assistant, content = reply\<rparr>] \<and>
         lastBotMessage (handleSubmit_after_await (Response status (Json (JObj kvs)))
            (set_currentChat chat (fst (handleSubmit_before_await s)))) = reply \<and>
         messages (handleSubmit_after_await (Response status (Json (JObj kvs))) s') =
           messages s' @ [\<lparr>role = Assistant, content = reply\<rparr>] \<and>
         lastBotMessage (handleSubmit_after_await (Response status (Json (JObj kvs))) s') = reply"
  using assms
  by (simp add: handleSubmit_after_await_def ask_bot_response_def set_currentChat_def
      currentChat_effect_def handleSubmit_before_await_def)

theorem late_reply_applied_witness:
  "messages (handleSubmit_after_await (Response 200 (Json (JObj [(utf16 ''response'', JStr (utf16 ''late reply''))])))
      (set_currentChat (Some (utf16 ''chat-2''))
         (fst (handleSubmit_before_await
            ((ChatInterface (Some (utf16 ''chat-1'')) (JStr (utf16 ''hi there'')) (Some (idle_engine [])))
         \<lparr>messages := [\<lparr>role = User, content = JStr (utf16 ''hello'')\<rparr>,
                       \<lparr>role = Assistant, content = JStr (utf16 ''hi there'')\<rparr>],
          input := utf16 ''what now?''\<rparr>))))) =
     [\<lparr>role = Assistant, content = JStr (utf16 ''late reply'')\<rparr>] \<and>
   lastBotMessage (handleSubmit_after_await (Response 200 (Json (JObj [(utf16 ''response'', JStr (utf16 ''late reply''))])))
      (set_currentChat (Some (utf16 ''chat-2''))
         (fst (handleSubmit_before_await
            ((ChatInterface (Some (utf16 ''chat-1'')) (JStr (utf16 ''hi there'')) (Some (idle_engine [])))
         \<lparr>messages := [\<lparr>role = User, content = JStr (utf16 ''hello'')\<rparr>,
                       \<lparr>role = Assistant, content = JStr (utf16 ''hi there'')\<rparr>],
          input := utf16 ''what now?''\<rparr>))))) =
     JStr (utf16 ''late reply'')"
  using late_reply_applied [of
      "((ChatInterface (Some (utf16 ''chat-1'')) (JStr (utf16 ''hi there'')) (Some (idle_engine [])))
         \<lparr>messages := [\<lparr>role = User, content = JStr (utf16 ''hello'')\<rparr>,
                       \<lparr>role = Assistant, content = JStr (utf16 ''hi there'')\<rparr>],
          input := utf16 ''what now?''\<rparr>)"
      "Some (utf16 ''chat-2'')" 200 "[(utf16 ''response'', JStr (utf16 ''late reply''))]"
      "JStr (utf16 ''late reply'')"
      "((ChatInterface (Some (utf16 ''chat-1'')) (JStr (utf16 ''hi there'')) (Some (idle_engine [])))
         \<lparr>messages := [\<lparr>role = User, content = JStr (utf16 ''hello'')\<rparr>,
                       \<lparr>role = Assistant, content = JStr (utf16 ''hi there'')\<rparr>]\<rparr>)"]
  by (simp add: trim_def is_whitespace_def ok_def ChatInterface_def utf16_def)




section \<open>Properties of the speech playback\<close>

lemma mount_effect_engine:
  "mount_effect (ChatInterface chat lbm None) = Inl ReferenceError \<and>
   mount_effect (ChatInterface chat lbm (Some e)) = Inr (ChatInterface chat lbm (Some e))"
  by (simp add: mount_effect_def loadVoices_def ChatInterface_def)

lemma speech_inv_mount: "speech_inv (ChatInterface chat lbm (map_option idle_engine vs))"
  by (cases vs) (simp_all add: speech_inv_def ChatInterface_def idle_engine_def)

lemma speech_inv_session:
  assumes "speech_inv s"
  shows "speech_inv (setInput v s)" and "speech_inv (set_currentChat chat s)"
    and "speech_inv (fst (handleSubmit_before_await s))"
    and "speech_inv (handleSubmit_after_await out s)"
    and "speech_inv (toggleRecording s)"
  using assms
  by (cases "speechSynthesis s";
      simp add: speech_inv_def setInput_def set_currentChat_def currentChat_effect_def
        handleSubmit_before_await_def handleSubmit_after_await_def toggleRecording_def
        split: sum.split)+

lemma speech_inv_speak: "speech_inv s \<Longrightarrow> speech_inv (speakMessage message s)"
  by (cases "speechSynthesis s")
    (simp_all add: speech_inv_def speakMessage_def cancel_def speak_def Let_def)

lemma speech_inv_stop: "speech_inv s \<Longrightarrow> speech_inv (stopSpeaking s)"
  by (cases "speechSynthesis s") (simp_all add: speech_inv_def stopSpeaking_def cancel_def)

lemma speech_inv_starts:
  "speech_inv s \<Longrightarrow> active_utterances s \<noteq> [] \<Longrightarrow> speech_inv (utterance_starts s)"
  by (cases "speechSynthesis s")
    (simp_all add: speech_inv_def active_utterances_def utterance_starts_def utterance_onstart_def)

lemma speech_inv_completes: "speech_inv s \<Longrightarrow> speech_inv (utterance_completes s)"
  by (cases "speechSynthesis s")
    (simp_all add: speech_inv_def utterance_completes_def utterance_onend_def)

lemma speech_inv_boundary: "speech_inv s \<Longrightarrow> speech_inv (utterance_onboundary event_name s)"
  by (cases "speechSynthesis s")
    (simp_all add: speech_inv_def utterance_onboundary_def pause_def)

lemma speech_inv_timeout: "speech_inv s \<Longrightarrow> speech_inv (onboundary_timeout s)"
  by (cases "speechSynthesis s")
    (simp_all add: speech_inv_def onboundary_timeout_def resume_def)

lemma speech_inv_voices: "speech_inv s \<Longrightarrow> speech_inv (voiceschanged vs s)"
  by (cases "speechSynthesis s")
    (simp_all add: speech_inv_def voiceschanged_def)

lemma reachable_speech_inv: "reachable s \<Longrightarrow> speech_inv s"
  by (induction rule: reachable.induct)
    (simp_all add: speech_inv_mount speech_inv_session speech_inv_speak speech_inv_stop
      speech_inv_starts speech_inv_completes speech_inv_boundary speech_inv_timeout
      speech_inv_voices)

text \<open>
  Claim C8. In every state a mounted component can reach, the engine holds at most one
  utterance, and the speaking flag is set whenever an utterance is being played. Where
  the platform has speech synthesis, \<^verbatim>\<open>speakMessage a\<close> followed by \<^verbatim>\<open>speakMessage b\<close>
  leaves exactly one utterance, the one for \<^verbatim>\<open>b\<close>: the one for \<^verbatim>\<open>a\<close> was cancelled. The
  flag is set when an utterance starts and is cleared when it completes and after
  \<^verbatim>\<open>stopSpeaking\<close>, which also leaves no utterance; \<^verbatim>\<open>stopSpeaking\<close> twice is the same
  as once.
\<close>

theorem one_active_utterance:
  assumes "reachable s"
  shows "length (active_utterances s) \<le> 1 \<and>
         (playing s \<longrightarrow> isSpeaking s) \<and>
         (speechSynthesis s \<noteq> None \<longrightarrow>
            active_utterances (speakMessage b (speakMessage a s)) =
              [\<lparr>utterance_text = b,
                voice = select_voice (getVoices (the (speechSynthesis s))),
                rate = 0.9, pitch = 1.1, volume = 0.95\<rparr>]) \<and>
         isSpeaking (utterance_starts s) \<and>
         \<not> isSpeaking (utterance_completes s) \<and>
         \<not> isSpeaking (stopSpeaking s) \<and>
         active_utterances (stopSpeaking s) = [] \<and>
         stopSpeaking (stopSpeaking s) = stopSpeaking s"
proof -
  have inv: "speech_inv s"
    using assms by (rule reachable_speech_inv)
  have one: "length (active_utterances s) \<le> 1" and play: "playing s \<longrightarrow> isSpeaking s"
    using inv by (auto simp: speech_inv_def active_utterances_def playing_def split: option.splits)
  have twice: "speechSynthesis s \<noteq> None \<longrightarrow>
      active_utterances (speakMessage b (speakMessage a s)) =
        [\<lparr>utterance_text = b, voice = select_voice (getVoices (the (speechSynthesis s))),
          rate = 0.9, pitch = 1.1, volume = 0.95\<rparr>]"
    by (auto simp: speakMessage_def active_utterances_def cancel_def speak_def getVoices_def Let_def)
  have ev: "isSpeaking (utterance_starts s)" "\<not> isSpeaking (utterance_completes s)"
    by (simp_all add: utterance_starts_def utterance_completes_def utterance_onstart_def
        utterance_onend_def)
  have stop: "\<not> isSpeaking (stopSpeaking s)" "active_utterances (stopSpeaking s) = []"
    using inv
    by (auto simp: speech_inv_def stopSpeaking_def active_utterances_def cancel_def
        split: option.splits)
  have idem: "stopSpeaking (stopSpeaking s) = stopSpeaking s"
    by (cases "speechSynthesis s") (simp_all add: stopSpeaking_def cancel_def)
  from one play twice ev stop idem show ?thesis by blast
qed

theorem one_active_utterance_witness:
  "playing (utterance_starts (speakMessage (utf16 ''hi there'') (ChatInterface (Some (utf16 ''chat-1'')) (JStr []) (map_option idle_engine (Some []))))) \<and>
   isSpeaking (utterance_starts (speakMessage (utf16 ''hi there'') (ChatInterface (Some (utf16 ''chat-1'')) (JStr []) (map_option idle_engine (Some []))))) \<and>
   map utterance_text (active_utterances
      (speakMessage (utf16 ''b'') (speakMessage (utf16 ''a'') (utterance_starts (speakMessage (utf16 ''hi there'') (ChatInterface (Some (utf16 ''chat-1'')) (JStr []) (map_option idle_engine (Some [])))))))) = [utf16 ''b''] \<and>
   \<not> isSpeaking (stopSpeaking (utterance_starts (speakMessage (utf16 ''hi there'') (ChatInterface (Some (utf16 ''chat-1'')) (JStr []) (map_option idle_engine (Some []))))))"
proof -
  have r0: "reachable (ChatInterface (Some (utf16 ''chat-1'')) (JStr []) (map_option idle_engine (Some [])))"
    by (rule reachable.mount)
  have r1: "reachable (speakMessage (utf16 ''hi there'') (ChatInterface (Some (utf16 ''chat-1'')) (JStr []) (map_option idle_engine (Some []))))"
    using r0 by (rule reachable.speaking_requested)
  have a1: "active_utterances (speakMessage (utf16 ''hi there'') (ChatInterface (Some (utf16 ''chat-1'')) (JStr []) (map_option idle_engine (Some [])))) \<noteq> []"
    by (simp add: active_utterances_def speakMessage_def speak_def cancel_def ChatInterface_def
        idle_engine_def Let_def)
  have p1: "\<not> playing (speakMessage (utf16 ''hi there'') (ChatInterface (Some (utf16 ''chat-1'')) (JStr []) (map_option idle_engine (Some []))))"
    by (simp add: playing_def speakMessage_def speak_def cancel_def ChatInterface_def
        idle_engine_def Let_def)
  have r2: "reachable (utterance_starts (speakMessage (utf16 ''hi there'') (ChatInterface (Some (utf16 ''chat-1'')) (JStr []) (map_option idle_engine (Some [])))))"
    using r1 a1 p1 by (rule reachable.starts)
  have p2: "playing (utterance_starts (speakMessage (utf16 ''hi there'') (ChatInterface (Some (utf16 ''chat-1'')) (JStr []) (map_option idle_engine (Some [])))))"
    by (simp add: playing_def utterance_starts_def utterance_onstart_def speakMessage_def
        speak_def cancel_def ChatInterface_def idle_engine_def Let_def)
  have e2: "speechSynthesis (utterance_starts (speakMessage (utf16 ''hi there'') (ChatInterface (Some (utf16 ''chat-1'')) (JStr []) (map_option idle_engine (Some []))))) \<noteq> None"
    by (simp add: utterance_starts_def utterance_onstart_def speakMessage_def
        ChatInterface_def Let_def)
  from one_active_utterance [OF r2, of "utf16 ''b''" "utf16 ''a''"] p2 e2 show ?thesis
    by simp
qed

text \<open>
  Claim C10. Nothing of the speech playback modifies the conversation session: the
  message log, the input buffer, the error text, the last assistant message and the
  loading flag, and also the chat identifier and the recording flag, are the same after
  \<^verbatim>\<open>speakMessage\<close> and after \<^verbatim>\<open>stopSpeaking\<close>, and the same after each callback that
  \<^verbatim>\<open>speakMessage\<close> puts on its utterance (\<^verbatim>\<open>onstart\<close>, \<^verbatim>\<open>onend\<close>, \<^verbatim>\<open>onboundary\<close> and
  its timer), whether called alone or by the engine starting, finishing or changing its
  voices. \<^verbatim>\<open>speakMessage\<close> itself leaves the speaking flag too: only its callbacks and
  \<^verbatim>\<open>stopSpeaking\<close> write it.
\<close>

theorem speech_leaves_session:
  "(messages (speakMessage t s), input (speakMessage t s), error (speakMessage t s), lastBotMessage (speakMessage t s), isLoading (speakMessage t s),
      currentChat (speakMessage t s), isRecording (speakMessage t s)) =
     (messages s, input s, error s, lastBotMessage s, isLoading s, currentChat s, isRecording s) \<and>
   isSpeaking (speakMessage t s) = isSpeaking s \<and>
   (messages (stopSpeaking s), input (stopSpeaking s), error (stopSpeaking s), lastBotMessage (stopSpeaking s), isLoading (stopSpeaking s),
      currentChat (stopSpeaking s), isRecording (stopSpeaking s)) =
     (messages s, input s, error s, lastBotMessage s, isLoading s, currentChat s, isRecording s) \<and>
   (messages (utterance_onstart s), input (utterance_onstart s), error (utterance_onstart s), lastBotMessage (utterance_onstart s), isLoading (utterance_onstart s),
      currentChat (utterance_onstart s), isRecording (utterance_onstart s)) =
     (messages s, input s, error s, lastBotMessage s, isLoading s, currentChat s, isRecording s) \<and>
   (messages (utterance_onend s), input (utterance_onend s), error (utterance_onend s), lastBotMessage (utterance_onend s), isLoading (utterance_onend s),
      currentChat (utterance_onend s), isRecording (utterance_onend s)) =
     (messages s, input s, error s, lastBotMessage s, isLoading s, currentChat s, isRecording s) \<and>
   (messages (utterance_onboundary event_name s), input (utterance_onboundary event_name s), error (utterance_onboundary event_name s), lastBotMessage (utterance_onboundary event_name s), isLoading (utterance_onboundary event_name s),
      currentChat (utterance_onboundary event_name s), isRecording (utterance_onboundary event_name s)) =
     (messages s, input s, error s, lastBotMessage s, isLoading s, currentChat s, isRecording s) \<and>
   (messages (onboundary_timeout s), input (onboundary_timeout s), error (onboundary_timeout s), lastBotMessage (onboundary_timeout s), isLoading (onboundary_timeout s),
      currentChat (onboundary_timeout s), isRecording (onboundary_timeout s)) =
     (messages s, input s, error s, lastBotMessage s, isLoading s, currentChat s, isRecording s) \<and>
   (messages (utterance_starts s), input (utterance_starts s), error (utterance_starts s), lastBotMessage (utterance_starts s), isLoading (utterance_starts s),
      currentChat (utterance_starts s), isRecording (utterance_starts s)) =
     (messages s, input s, error s, lastBotMessage s, isLoading s, currentChat s, isRecording s) \<and>
   (messages (utterance_completes s), input (utterance_completes s), error (utterance_completes s), lastBotMessage (utterance_completes s), isLoading (utterance_completes s),
      currentChat (utterance_completes s), isRecording (utterance_completes s)) =
     (messages s, input s, error s, lastBotMessage s, isLoading s, currentChat s, isRecording s) \<and>
   (messages (voiceschanged vs s), input (voiceschanged vs s), error (voiceschanged vs s), lastBotMessage (voiceschanged vs s), isLoading (voiceschanged vs s),
      currentChat (voiceschanged vs s), isRecording (voiceschanged vs s)) =
     (messages s, input s, error s, lastBotMessage s, isLoading s, currentChat s, isRecording s)"
  by (cases "speechSynthesis s")
    (simp_all add: speakMessage_def stopSpeaking_def utterance_onstart_def utterance_onend_def
      utterance_onboundary_def onboundary_timeout_def utterance_starts_def
      utterance_completes_def voiceschanged_def Let_def)

theorem speech_leaves_session_witness:
  "messages (utterance_completes (utterance_starts (speakMessage (utf16 ''hi there'')
      ((ChatInterface (Some (utf16 ''chat-1'')) (JStr (utf16 ''hi there'')) (Some (idle_engine [])))
      \<lparr>messages := [\<lparr>role = User, content = JStr (utf16 ''hello'')\<rparr>,
                    \<lparr>role = Assistant, content = JStr (utf16 ''hi there'')\<rparr>],
       input := utf16 ''draft'', isLoading := True,
       error := Some (utf16 ''earlier failure'')\<rparr>)))) =
     [\<lparr>role = User, content = JStr (utf16 ''hello'')\<rparr>,
      \<lparr>role = Assistant, content = JStr (utf16 ''hi there'')\<rparr>] \<and>
   input (utterance_onboundary (utf16 ''word'') (utterance_starts (speakMessage (utf16 ''hi there'')
      ((ChatInterface (Some (utf16 ''chat-1'')) (JStr (utf16 ''hi there'')) (Some (idle_engine [])))
      \<lparr>messages := [\<lparr>role = User, content = JStr (utf16 ''hello'')\<rparr>,
                    \<lparr>role = Assistant, content = JStr (utf16 ''hi there'')\<rparr>],
       input := utf16 ''draft'', isLoading := True,
       error := Some (utf16 ''earlier failure'')\<rparr>)))) =
     utf16 ''draft'' \<and>
   error (stopSpeaking (utterance_starts (speakMessage (utf16 ''hi there'')
      ((ChatInterface (Some (utf16 ''chat-1'')) (JStr (utf16 ''hi there'')) (Some (idle_engine [])))
      \<lparr>messages := [\<lparr>role = User, content = JStr (utf16 ''hello'')\<rparr>,
                    \<lparr>role = Assistant, content = JStr (utf16 ''hi there'')\<rparr>],
       input := utf16 ''draft'', isLoading := True,
       error := Some (utf16 ''earlier failure'')\<rparr>)))) =
     Some (utf16 ''earlier failure'') \<and>
   lastBotMessage (onboundary_timeout (speakMessage (utf16 ''hi there'')
      ((ChatInterface (Some (utf16 ''chat-1'')) (JStr (utf16 ''hi there'')) (Some (idle_engine [])))
      \<lparr>messages := [\<lparr>role = User, content = JStr (utf16 ''hello'')\<rparr>,
                    \<lparr>role = Assistant, content = JStr (utf16 ''hi there'')\<rparr>],
       input := utf16 ''draft'', isLoading := True,
       error := Some (utf16 ''earlier failure'')\<rparr>))) =
     JStr (utf16 ''hi there'') \<and>
   isLoading (utterance_onend (utterance_onstart (speakMessage (utf16 ''hi there'')
      ((ChatInterface (Some (utf16 ''chat-1'')) (JStr (utf16 ''hi there'')) (Some (idle_engine [])))
      \<lparr>messages := [\<lparr>role = User, content = JStr (utf16 ''hello'')\<rparr>,
                    \<lparr>role = Assistant, content = JStr (utf16 ''hi there'')\<rparr>],
       input := utf16 ''draft'', isLoading := True,
       error := Some (utf16 ''earlier failure'')\<rparr>)))) = True"
proof -
  let ?s0 = "((ChatInterface (Some (utf16 ''chat-1'')) (JStr (utf16 ''hi there'')) (Some (idle_engine [])))
      \<lparr>messages := [\<lparr>role = User, content = JStr (utf16 ''hello'')\<rparr>,
                    \<lparr>role = Assistant, content = JStr (utf16 ''hi there'')\<rparr>],
       input := utf16 ''draft'', isLoading := True,
       error := Some (utf16 ''earlier failure'')\<rparr>)"
  let ?s1 = "speakMessage (utf16 ''hi there'') ?s0"
  let ?s2 = "utterance_starts ?s1"
  let ?s3 = "utterance_onstart ?s1"
  note f0 = speech_leaves_session [of "utf16 ''hi there''" ?s0 "utf16 ''word''" "[]"]
  note f1 = speech_leaves_session [of "utf16 ''hi there''" ?s1 "utf16 ''word''" "[]"]
  note f2 = speech_leaves_session [of "utf16 ''hi there''" ?s2 "utf16 ''word''" "[]"]
  note f3 = speech_leaves_session [of "utf16 ''hi there''" ?s3 "utf16 ''word''" "[]"]
  have base: "messages ?s0 = [\<lparr>role = User, content = JStr (utf16 ''hello'')\<rparr>,
      \<lparr>role = Assistant, content = JStr (utf16 ''hi there'')\<rparr>]"
    "input ?s0 = utf16 ''draft''" "error ?s0 = Some (utf16 ''earlier failure'')"
    "lastBotMessage ?s0 = JStr (utf16 ''hi there'')" "isLoading ?s0 = True"
    by (simp_all add: ChatInterface_def)
  from f0 f1 f2 f3 base show ?thesis
    by simp
qed

section \<open>Properties of EmailModal\<close>

text \<open>
  Claim C9. For every last assistant message \<^verbatim>\<open>X\<close> and every address entered, the
  submit of the dialog sends exactly one request, to \<^verbatim>\<open>/send_email\<close>, whose \<^verbatim>\<open>body\<close> is
  \<^verbatim>\<open>X\<close> itself, whose \<^verbatim>\<open>subject\<close> is the literal \<^verbatim>\<open>Police Report Summary\<close> and whose
  \<^verbatim>\<open>to\<close> is the address.
\<close>

theorem dispatch_request:
  "snd (EmailModal_handleSubmit_before_await X (setEmail address m)) =
     [\<lparr>url = utf16 ''http://localhost:8080/send_email'', http_method = utf16 ''POST'',
       headers = [(utf16 ''Content-Type'', utf16 ''application/json'')],
       json_body = \<lparr>to = address, subject = utf16 ''Police Report Summary'', body = X\<rparr>\<rparr>]"
  by (simp add: EmailModal_handleSubmit_before_await_def setEmail_def)

theorem dispatch_request_witness:
  "map json_body (snd (EmailModal_handleSubmit_before_await (utf16 ''file a report'')
          (setEmail (utf16 ''officer@example.org'') (EmailModal True)))) =
     [\<lparr>to = utf16 ''officer@example.org'', subject = utf16 ''Police Report Summary'',
       body = utf16 ''file a report''\<rparr>]"
  using dispatch_request [of "utf16 ''file a report''" "utf16 ''officer@example.org''"
      "EmailModal True"]
  by simp

text \<open>
  Claim C4. With closing as the spec has it for the parent, the dialog hides the address
  field when it is closed, and for every address entered before, the field is empty when
  the dialog is opened again. The same holds when the dialog is closed by a submit that
  succeeded.
\<close>

theorem close_discards_address:
  "email_input (onClose (setEmail address m)) = None \<and>
   email_input (open_modal (onClose (setEmail address m))) = Some [] \<and>
   (send_email_response out = Inr () \<longrightarrow>
      email_input (open_modal (fst (EmailModal_handleSubmit_after_await out
         (setEmail address m)))) = Some [])"
  by (simp add: email_input_def open_modal_def onClose_def setEmail_def
      EmailModal_handleSubmit_after_await_def)

theorem close_discards_address_witness:
  "email_input (open_modal (onClose (setEmail (utf16 ''officer@exam'') (EmailModal True)))) =
     Some [] \<and>
   email_input (open_modal (fst (EmailModal_handleSubmit_after_await
      (Response 200 (Json (JObj [(utf16 ''success'', JBool True)])))
      (setEmail (utf16 ''officer@example.org'') (EmailModal True))))) = Some []"
  using close_discards_address [of "utf16 ''officer@exam''" "EmailModal True" Rejected]
    close_discards_address [of "utf16 ''officer@example.org''" "EmailModal True"
      "Response 200 (Json (JObj [(utf16 ''success'', JBool True)]))"]
  by (simp add: send_email_response_def ok_def)

end
